theory Spec2Isabelle
  imports Complex_Main
begin

section \<open>Numbers as the routers compute with them\<close>

text \<open>
  The routers read every amount and every balance with \<^verbatim>\<open>parseFloat\<close> and compute on
  JavaScript numbers. An amount of a request and a \<^verbatim>\<open>decimal\<close> column are modelled by
  the number that \<^verbatim>\<open>parseFloat\<close> reads from their text: \<open>NaN\<close>, one of the two
  infinities, or a finite value. Finite arithmetic is exact (a rational): the rounding of
  IEEE doubles, the sign of zero, and what the \<^verbatim>\<open>decimal(18,8)\<close> columns do to a text
  they cannot hold (scale, range, text that is no number) are not modelled. Every closed
  theorem below computes on small integers, halves and quarters only, where doubles are
  exact as well.
\<close>

datatype jsnum = NaN | NegInf | Fin rat | PosInf

text \<open>\<^verbatim>\<open>a < b\<close>: false as soon as one side is \<open>NaN\<close>.\<close>

fun js_lt :: "jsnum \<Rightarrow> jsnum \<Rightarrow> bool" where
  "js_lt NaN _ = False"
| "js_lt _ NaN = False"
| "js_lt (Fin a) (Fin b) = (a < b)"
| "js_lt PosInf _ = False"
| "js_lt _ PosInf = True"
| "js_lt _ NegInf = False"
| "js_lt NegInf _ = True"


fun js_neg :: "jsnum \<Rightarrow> jsnum" where
  "js_neg NaN = NaN"
| "js_neg NegInf = PosInf"
| "js_neg (Fin a) = Fin (- a)"
| "js_neg PosInf = NegInf"

fun js_add :: "jsnum \<Rightarrow> jsnum \<Rightarrow> jsnum" where
  "js_add NaN _ = NaN"
| "js_add _ NaN = NaN"
| "js_add (Fin a) (Fin b) = Fin (a + b)"
| "js_add PosInf NegInf = NaN"
| "js_add NegInf PosInf = NaN"
| "js_add PosInf _ = PosInf"
| "js_add _ PosInf = PosInf"
| "js_add NegInf _ = NegInf"
| "js_add _ NegInf = NegInf"

definition js_sub :: "jsnum \<Rightarrow> jsnum \<Rightarrow> jsnum" where
  "js_sub a b = js_add a (js_neg b)"





section \<open>The tables\<close>

text \<open>
  A row of \<^verbatim>\<open>wallets\<close> and a row of \<^verbatim>\<open>transactions\<close>, with the columns the routers
  read or write. The timestamp columns (filled by the database clock) are left out. An
  id is an integer: a number of a request that is no integer matches no row.
\<close>

record wallet =
  w_id :: int
  userId :: int
  currencyCode :: string
  balance :: jsnum
  address :: "string option"
  isActive :: bool

datatype transactionType = Transfer | Deposit | Withdrawal | Exchange

datatype transactionStatus = Pending | Completed | Failed | Cancelled

record insertTransaction =
  fromUserId :: "int option"
  toUserId :: "int option"
  fromWalletId :: int
  toWalletId :: "int option"
  amount :: jsnum
  fee :: jsnum
  transactionType :: transactionType
  status :: transactionStatus
  blockchainTxHash :: "string option"
  description :: "string option"

record transaction = insertTransaction +
  t_id :: int

text \<open>
  The database: both tables in insertion order, each with the last value of its
  \<^verbatim>\<open>AUTO_INCREMENT\<close> counter.
\<close>

record ledger =
  wallets :: "wallet list"
  walletSeq :: int
  transactions :: "transaction list"
  transactionSeq :: int

text \<open>
  \<^verbatim>\<open>getDb()\<close> yields the connection or \<^verbatim>\<open>null\<close>; \<open>None\<close> is the database that is not
  available. Every query of \<^verbatim>\<open>db.ts\<close> below raises on it.
\<close>

type_synonym db = "ledger option"

datatype dbError = DatabaseNotAvailable

section \<open>Queries of db.ts\<close>

definition createWallet :: "db \<Rightarrow> int \<Rightarrow> string \<Rightarrow> string option \<Rightarrow> dbError + db" where
  "createWallet d uid cc addr =
     (case d of
        None \<Rightarrow> Inl DatabaseNotAvailable
      | Some l \<Rightarrow>
          Inr (Some (l\<lparr>wallets := wallets l @
                        [\<lparr>w_id = walletSeq l + 1, userId = uid, currencyCode = cc,
                          balance = Fin 0, address = addr, isActive = True\<rparr>],
                      walletSeq := walletSeq l + 1\<rparr>)))"

definition getUserWallets :: "db \<Rightarrow> int \<Rightarrow> dbError + wallet list" where
  "getUserWallets d uid =
     (case d of
        None \<Rightarrow> Inl DatabaseNotAvailable
      | Some l \<Rightarrow> Inr (filter (\<lambda>w. userId w = uid) (wallets l)))"

definition getWalletById :: "db \<Rightarrow> int \<Rightarrow> dbError + wallet option" where
  "getWalletById d walletId =
     (case d of
        None \<Rightarrow> Inl DatabaseNotAvailable
      | Some l \<Rightarrow> Inr (find (\<lambda>w. w_id w = walletId) (wallets l)))"

definition updateWalletBalance :: "db \<Rightarrow> int \<Rightarrow> jsnum \<Rightarrow> dbError + db" where
  "updateWalletBalance d walletId newBalance =
     (case d of
        None \<Rightarrow> Inl DatabaseNotAvailable
      | Some l \<Rightarrow>
          Inr (Some (l\<lparr>wallets :=
                  map (\<lambda>w. if w_id w = walletId then w\<lparr>balance := newBalance\<rparr> else w)
                    (wallets l)\<rparr>)))"

definition createTransaction :: "db \<Rightarrow> insertTransaction \<Rightarrow> dbError + db" where
  "createTransaction d dat =
     (case d of
        None \<Rightarrow> Inl DatabaseNotAvailable
      | Some l \<Rightarrow>
          Inr (Some (l\<lparr>transactions := transactions l @
                        [insertTransaction.extend dat
                           (transaction.fields (transactionSeq l + 1))],
                      transactionSeq := transactionSeq l + 1\<rparr>)))"

section \<open>Procedures of the routers\<close>

text \<open>
  A procedure takes the database, the context of the authenticated caller and its
  input, and returns its reply with the database it leaves. A reply is the object
  \<^verbatim>\<open>{success: true, ...}\<close> or \<^verbatim>\<open>{success: false, error}\<close>; \<open>BadRequest\<close> is the
  rejection of an input by its schema, before the procedure body runs.
\<close>

record reqContext =
  user_id :: int

datatype 'a reply = Success 'a | Failure string | BadRequest

subsection \<open>transactions.transfer\<close>

record transferInput =
  ti_toUserId :: int
  ti_fromWalletId :: int
  ti_toWalletId :: int
  ti_amount :: jsnum
  ti_description :: "string option"

definition transfer :: "db \<Rightarrow> reqContext \<Rightarrow> transferInput \<Rightarrow> string reply \<times> db" where
  "transfer d ctx inp =
     (case getWalletById d (ti_fromWalletId inp) of
        Inl _ \<Rightarrow> (Failure ''Transfer failed'', d)
      | Inr None \<Rightarrow> (Failure ''Invalid source wallet'', d)
      | Inr (Some fromWallet) \<Rightarrow>
          if userId fromWallet \<noteq> user_id ctx then (Failure ''Invalid source wallet'', d)
          else
            (case getWalletById d (ti_toWalletId inp) of
               Inl _ \<Rightarrow> (Failure ''Transfer failed'', d)
             | Inr None \<Rightarrow> (Failure ''Invalid destination wallet'', d)
             | Inr (Some toWallet) \<Rightarrow>
                 let bal = balance fromWallet; amt = ti_amount inp in
                 if js_lt bal amt then (Failure ''Insufficient balance'', d)
                 else
                   let transactionData =
                     \<lparr>fromUserId = Some (user_id ctx),
                      toUserId = Some (ti_toUserId inp),
                      fromWalletId = ti_fromWalletId inp,
                      toWalletId = Some (ti_toWalletId inp),
                      amount = ti_amount inp,
                      fee = Fin 0,
                      transactionType = Transfer,
                      status = Completed,
                      blockchainTxHash = None,
                      description = ti_description inp\<rparr>
                   in
                   (case createTransaction d transactionData of
                      Inl _ \<Rightarrow> (Failure ''Transfer failed'', d)
                    | Inr d1 \<Rightarrow>
                        let newFromBalance = js_sub bal amt;
                            toBalance = balance toWallet;
                            newToBalance = js_add toBalance amt
                        in
                        (case updateWalletBalance d1 (ti_fromWalletId inp) newFromBalance of
                           Inl _ \<Rightarrow> (Failure ''Transfer failed'', d1)
                         | Inr d2 \<Rightarrow>
                             (case updateWalletBalance d2 (ti_toWalletId inp) newToBalance of
                                Inl _ \<Rightarrow> (Failure ''Transfer failed'', d2)
                              | Inr d3 \<Rightarrow> (Success ''Transfer completed successfully'', d3))))))"

subsection \<open>transactions.recordDeposit and transactions.recordWithdrawal\<close>

text \<open>\<^verbatim>\<open>s || dflt\<close> on an optional string: the default replaces a missing or empty one.\<close>

definition or_default :: "string option \<Rightarrow> string \<Rightarrow> string" where
  "or_default s dflt = (case s of None \<Rightarrow> dflt | Some t \<Rightarrow> if t = [] then dflt else t)"

record recordInput =
  ri_walletId :: int
  ri_amount :: jsnum
  ri_blockchainTxHash :: "string option"
  ri_description :: "string option"

definition recordDeposit :: "db \<Rightarrow> reqContext \<Rightarrow> recordInput \<Rightarrow> string reply \<times> db" where
  "recordDeposit d ctx inp =
     (case getWalletById d (ri_walletId inp) of
        Inl _ \<Rightarrow> (Failure ''Failed to record deposit'', d)
      | Inr None \<Rightarrow> (Failure ''Invalid wallet'', d)
      | Inr (Some wallet) \<Rightarrow>
          if userId wallet \<noteq> user_id ctx then (Failure ''Invalid wallet'', d)
          else
            let transactionData =
              \<lparr>fromUserId = None,
               toUserId = Some (user_id ctx),
               fromWalletId = ri_walletId inp,
               toWalletId = Some (ri_walletId inp),
               amount = ri_amount inp,
               fee = Fin 0,
               transactionType = Deposit,
               status = Completed,
               blockchainTxHash = ri_blockchainTxHash inp,
               description = Some (or_default (ri_description inp) ''Deposit'')\<rparr>
            in
            (case createTransaction d transactionData of
               Inl _ \<Rightarrow> (Failure ''Failed to record deposit'', d)
             | Inr d1 \<Rightarrow>
                 let newBalance = js_add (balance wallet) (ri_amount inp) in
                 (case updateWalletBalance d1 (ri_walletId inp) newBalance of
                    Inl _ \<Rightarrow> (Failure ''Failed to record deposit'', d1)
                  | Inr d2 \<Rightarrow> (Success ''Deposit recorded successfully'', d2))))"

definition recordWithdrawal :: "db \<Rightarrow> reqContext \<Rightarrow> recordInput \<Rightarrow> string reply \<times> db" where
  "recordWithdrawal d ctx inp =
     (case getWalletById d (ri_walletId inp) of
        Inl _ \<Rightarrow> (Failure ''Failed to record withdrawal'', d)
      | Inr None \<Rightarrow> (Failure ''Invalid wallet'', d)
      | Inr (Some wallet) \<Rightarrow>
          if userId wallet \<noteq> user_id ctx then (Failure ''Invalid wallet'', d)
          else
            let bal = balance wallet; amt = ri_amount inp in
            if js_lt bal amt then (Failure ''Insufficient balance'', d)
            else
              let transactionData =
                \<lparr>fromUserId = Some (user_id ctx),
                 toUserId = None,
                 fromWalletId = ri_walletId inp,
                 toWalletId = Some (ri_walletId inp),
                 amount = ri_amount inp,
                 fee = Fin 0,
                 transactionType = Withdrawal,
                 status = Completed,
                 blockchainTxHash = ri_blockchainTxHash inp,
                 description = Some (or_default (ri_description inp) ''Withdrawal'')\<rparr>
              in
              (case createTransaction d transactionData of
                 Inl _ \<Rightarrow> (Failure ''Failed to record withdrawal'', d)
               | Inr d1 \<Rightarrow>
                   let newBalance = js_sub bal amt in
                   (case updateWalletBalance d1 (ri_walletId inp) newBalance of
                      Inl _ \<Rightarrow> (Failure ''Failed to record withdrawal'', d1)
                    | Inr d2 \<Rightarrow> (Success ''Withdrawal recorded successfully'', d2))))"

subsection \<open>wallets.create and wallets.getDistribution\<close>

record createInput =
  ci_currencyCode :: string
  ci_address :: "string option"

definition create :: "db \<Rightarrow> reqContext \<Rightarrow> createInput \<Rightarrow> string reply \<times> db" where
  "create d ctx inp =
     (if length (ci_currencyCode inp) < 1 \<or> 10 < length (ci_currencyCode inp)
      then (BadRequest, d)
      else
        (case getUserWallets d (user_id ctx) of
           Inl _ \<Rightarrow> (Failure ''Failed to create wallet'', d)
         | Inr existingWallets \<Rightarrow>
             let exists = list_ex (\<lambda>w. currencyCode w = ci_currencyCode inp) existingWallets in
             if exists
             then (Failure (''Wallet for '' @ ci_currencyCode inp @ '' already exists''), d)
             else
               (case createWallet d (user_id ctx) (ci_currencyCode inp) (ci_address inp) of
                  Inl _ \<Rightarrow> (Failure ''Failed to create wallet'', d)
                | Inr d1 \<Rightarrow>
                    (Success (ci_currencyCode inp @ '' wallet created successfully''), d1))))"



subsection \<open>crypto.generateAddress and crypto.initiateWithdrawal\<close>

datatype cryptocurrency = BTC | ETH

fun crypto_code :: "cryptocurrency \<Rightarrow> string" where
  "crypto_code BTC = ''BTC''"
| "crypto_code ETH = ''ETH''"

definition generateAddress ::
  "db \<Rightarrow> reqContext \<Rightarrow> cryptocurrency \<Rightarrow> (string \<times> cryptocurrency) reply \<times> db" where
  "generateAddress d ctx c =
     (case getUserWallets d (user_id ctx) of
        Inl _ \<Rightarrow> (Failure ''Failed to generate address'', d)
      | Inr existingWallets \<Rightarrow>
          let exists = list_ex (\<lambda>w. currencyCode w = crypto_code c) existingWallets in
          if exists
          then
            let wallet = find (\<lambda>w. currencyCode w = crypto_code c) existingWallets in
            (Success (or_default (case wallet of None \<Rightarrow> None | Some w \<Rightarrow> address w)
                        ''1A1z7agoat4FqCnf4Xy2MQUqLCWCuqq2em'', c), d)
          else
            let mockAddress =
              (if c = BTC then ''1A1z7agoat4FqCnf4Xy2MQUqLCWCuqq2em''
               else ''0x742d35Cc6634C0532925a3b844Bc9e7595f42bE'')
            in
            (case createWallet d (user_id ctx) (crypto_code c) (Some mockAddress) of
               Inl _ \<Rightarrow> (Failure ''Failed to generate address'', d)
             | Inr d1 \<Rightarrow> (Success (mockAddress, c), d1)))"

record withdrawalInput =
  wi_cryptocurrency :: cryptocurrency
  wi_amount :: jsnum
  wi_destinationAddress :: string

text \<open>The reply of a withdrawal that was initiated: message, status, cryptocurrency.\<close>

definition initiateWithdrawal ::
  "db \<Rightarrow> reqContext \<Rightarrow> withdrawalInput
     \<Rightarrow> (string \<times> transactionStatus \<times> cryptocurrency) reply \<times> db" where
  "initiateWithdrawal d ctx inp =
     (case getUserWallets d (user_id ctx) of
        Inl _ \<Rightarrow> (Failure ''Failed to initiate withdrawal'', d)
      | Inr ws \<Rightarrow>
          (case find (\<lambda>w. currencyCode w = crypto_code (wi_cryptocurrency inp)) ws of
             None \<Rightarrow> (Failure ''Wallet not found'', d)
           | Some wallet \<Rightarrow>
               let bal = balance wallet; amt = wi_amount inp in
               if js_lt bal amt then (Failure ''Insufficient balance'', d)
               else
                 let transactionData =
                   \<lparr>fromUserId = Some (user_id ctx),
                    toUserId = None,
                    fromWalletId = w_id wallet,
                    toWalletId = Some (w_id wallet),
                    amount = wi_amount inp,
                    fee = Fin (5 / 10000),
                    transactionType = Withdrawal,
                    status = Pending,
                    blockchainTxHash = None,
                    description =
                      Some (''Withdrawal to '' @ take 10 (wi_destinationAddress inp) @ ''...'')\<rparr>
                 in
                 (case createTransaction d transactionData of
                    Inl _ \<Rightarrow> (Failure ''Failed to initiate withdrawal'', d)
                  | Inr d1 \<Rightarrow>
                      (Success (''Withdrawal initiated successfully'', Pending,
                                wi_cryptocurrency inp), d1))))"

section \<open>Requests handled one after the other\<close>

datatype request =
    CreateReq reqContext createInput
  | TransferReq reqContext transferInput
  | DepositReq reqContext recordInput
  | WithdrawalReq reqContext recordInput
  | GenerateAddressReq reqContext cryptocurrency
  | InitiateWithdrawalReq reqContext withdrawalInput

fun handle :: "db \<Rightarrow> request \<Rightarrow> db" where
  "handle d (CreateReq ctx inp) = snd (create d ctx inp)"
| "handle d (TransferReq ctx inp) = snd (transfer d ctx inp)"
| "handle d (DepositReq ctx inp) = snd (recordDeposit d ctx inp)"
| "handle d (WithdrawalReq ctx inp) = snd (recordWithdrawal d ctx inp)"
| "handle d (GenerateAddressReq ctx c) = snd (generateAddress d ctx c)"
| "handle d (InitiateWithdrawalReq ctx inp) = snd (initiateWithdrawal d ctx inp)"

definition run :: "db \<Rightarrow> request list \<Rightarrow> db" where
  "run d reqs = foldl handle d reqs"

text \<open>The amount a request carries, when it carries one.\<close>

fun request_amount :: "request \<Rightarrow> jsnum option" where
  "request_amount (CreateReq _ _) = None"
| "request_amount (TransferReq _ inp) = Some (ti_amount inp)"
| "request_amount (DepositReq _ inp) = Some (ri_amount inp)"
| "request_amount (WithdrawalReq _ inp) = Some (ri_amount inp)"
| "request_amount (GenerateAddressReq _ _) = None"
| "request_amount (InitiateWithdrawalReq _ inp) = Some (wi_amount inp)"

section \<open>Observations on a database\<close>

definition db_wallets :: "db \<Rightarrow> wallet list" where
  "db_wallets d = (case d of None \<Rightarrow> [] | Some l \<Rightarrow> wallets l)"

definition db_transactions :: "db \<Rightarrow> transaction list" where
  "db_transactions d = (case d of None \<Rightarrow> [] | Some l \<Rightarrow> transactions l)"

text \<open>
  The ledger that a transfer leaves when its three checks pass, \<open>fw\<close> and \<open>tw\<close> being
  the source and destination rows it read: the row it inserts and its two writes, the
  destination last.
\<close>

definition transferred ::
  "ledger \<Rightarrow> reqContext \<Rightarrow> transferInput \<Rightarrow> wallet \<Rightarrow> wallet \<Rightarrow> ledger" where
  "transferred l ctx inp fw tw =
     l\<lparr>wallets :=
         map (\<lambda>w. if w_id w = ti_toWalletId inp
                   then w\<lparr>balance := js_add (balance tw) (ti_amount inp)\<rparr> else w)
           (map (\<lambda>w. if w_id w = ti_fromWalletId inp
                     then w\<lparr>balance := js_sub (balance fw) (ti_amount inp)\<rparr> else w)
              (wallets l)),
       transactions := transactions l @
         [\<lparr>fromUserId = Some (user_id ctx), toUserId = Some (ti_toUserId inp),
           fromWalletId = ti_fromWalletId inp, toWalletId = Some (ti_toWalletId inp),
           amount = ti_amount inp, fee = Fin 0, transactionType = Transfer,
           status = Completed, blockchainTxHash = None,
           description = ti_description inp, t_id = transactionSeq l + 1\<rparr>],
       transactionSeq := transactionSeq l + 1\<rparr>"

text \<open>\<^verbatim>\<open>a <= b\<close>, used to say that a balance is not negative.\<close>

fun js_le :: "jsnum \<Rightarrow> jsnum \<Rightarrow> bool" where
  "js_le NaN _ = False"
| "js_le _ NaN = False"
| "js_le (Fin a) (Fin b) = (a \<le> b)"
| "js_le NegInf _ = True"
| "js_le _ PosInf = True"
| "js_le _ _ = False"

definition finite_nonneg :: "jsnum \<Rightarrow> bool" where
  "finite_nonneg x = (case x of Fin a \<Rightarrow> 0 \<le> a | _ \<Rightarrow> False)"

text \<open>Every wallet holds a finite balance that is not negative.\<close>

definition balances_nonneg :: "db \<Rightarrow> bool" where
  "balances_nonneg d = list_all (\<lambda>w. finite_nonneg (balance w)) (db_wallets d)"

text \<open>Every request that carries an amount carries a finite one that is not negative.\<close>

definition amounts_nonneg :: "request list \<Rightarrow> bool" where
  "amounts_nonneg reqs =
     list_all (\<lambda>r. case request_amount r of None \<Rightarrow> True | Some a \<Rightarrow> finite_nonneg a) reqs"

text \<open>The pairs (owner, currency code) of the wallets, in table order.\<close>

definition wallet_keys :: "db \<Rightarrow> (int \<times> string) list" where
  "wallet_keys d = map (\<lambda>w. (userId w, currencyCode w)) (db_wallets d)"

definition empty_ledger :: ledger where
  "empty_ledger = \<lparr>wallets = [], walletSeq = 0, transactions = [], transactionSeq = 0\<rparr>"

text \<open>
  The database with every wallet's \<^verbatim>\<open>isActive\<close> flag replaced by what \<open>act\<close> gives for
  the wallet's id.
\<close>

definition with_active :: "(int \<Rightarrow> bool) \<Rightarrow> db \<Rightarrow> db" where
  "with_active act d =
     map_option (\<lambda>l. l\<lparr>wallets := map (\<lambda>w. w\<lparr>isActive := act (w_id w)\<rparr>) (wallets l)\<rparr>) d"

section \<open>A small ledger for the closed theorems\<close>

text \<open>
  User 7 holds a USD wallet (id 1, balance 100) and a BTC wallet (id 3, balance 1);
  user 8 holds a deactivated USD wallet (id 2, balance 50).
\<close>

definition ex_ledger :: ledger where
  "ex_ledger =
     \<lparr>wallets =
        [\<lparr>w_id = 1, userId = 7, currencyCode = ''USD'', balance = Fin 100,
          address = None, isActive = True\<rparr>,
         \<lparr>w_id = 2, userId = 8, currencyCode = ''USD'', balance = Fin 50,
          address = None, isActive = False\<rparr>,
         \<lparr>w_id = 3, userId = 7, currencyCode = ''BTC'', balance = Fin 1,
          address = Some ''1A1z7agoat4FqCnf4Xy2MQUqLCWCuqq2em'', isActive = True\<rparr>],
      walletSeq = 3, transactions = [], transactionSeq = 0\<rparr>"

definition ex_caller :: reqContext where
  "ex_caller = \<lparr>user_id = 7\<rparr>"

text \<open>A transfer request naming recipient \<open>u\<close>, from wallet \<open>src\<close> to wallet \<open>dst\<close>.\<close>

definition ex_transfer :: "int \<Rightarrow> int \<Rightarrow> int \<Rightarrow> rat \<Rightarrow> transferInput" where
  "ex_transfer u src dst a =
     \<lparr>ti_toUserId = u, ti_fromWalletId = src, ti_toWalletId = dst, ti_amount = Fin a,
      ti_description = None\<rparr>"

text \<open>A withdrawal of half a bitcoin asked by the caller.\<close>

definition ex_withdrawal :: withdrawalInput where
  "ex_withdrawal =
     \<lparr>wi_cryptocurrency = BTC, wi_amount = Fin (1 / 2),
      wi_destinationAddress = ''bc1qar0srrr7xfkvy5l643lydnw9re59gtzzwf5mdq''\<rparr>"



text \<open>
  Requests on an empty database: user 7 opens a USD wallet and deposits 100, user 8 opens
  a USD wallet, user 7 transfers 30 to it and withdraws the remaining 70.
\<close>

definition ex_requests :: "request list" where
  "ex_requests =
     [CreateReq \<lparr>user_id = 7\<rparr> \<lparr>ci_currencyCode = ''USD'', ci_address = None\<rparr>,
      DepositReq \<lparr>user_id = 7\<rparr>
        \<lparr>ri_walletId = 1, ri_amount = Fin 100, ri_blockchainTxHash = None,
         ri_description = None\<rparr>,
      CreateReq \<lparr>user_id = 8\<rparr> \<lparr>ci_currencyCode = ''USD'', ci_address = None\<rparr>,
      TransferReq \<lparr>user_id = 7\<rparr> (ex_transfer 8 1 2 30),
      WithdrawalReq \<lparr>user_id = 7\<rparr>
        \<lparr>ri_walletId = 1, ri_amount = Fin 70, ri_blockchainTxHash = None,
         ri_description = None\<rparr>]"

text \<open>User 7 opens a USD wallet and records a deposit of \<open>-5\<close>.\<close>

definition ex_negative_deposit :: "request list" where
  "ex_negative_deposit =
     [CreateReq \<lparr>user_id = 7\<rparr> \<lparr>ci_currencyCode = ''USD'', ci_address = None\<rparr>,
      DepositReq \<lparr>user_id = 7\<rparr>
        \<lparr>ri_walletId = 1, ri_amount = Fin (- 5), ri_blockchainTxHash = None,
         ri_description = None\<rparr>]"

section \<open>Facts about the queries\<close>

lemmas db_defs = getWalletById_def getUserWallets_def createWallet_def createTransaction_def
  updateWalletBalance_def

lemmas proc_defs = create_def transfer_def recordDeposit_def recordWithdrawal_def
  generateAddress_def initiateWithdrawal_def

lemma find_set_balance:
  "find (\<lambda>w. w_id w = k) (map (\<lambda>w. if w_id w = j then w\<lparr>balance := b\<rparr> else w) ws)
     = map_option (\<lambda>w. if w_id w = j then w\<lparr>balance := b\<rparr> else w) (find (\<lambda>w. w_id w = k) ws)"
  by (induction ws) auto

lemma find_Some_w_id: "find (\<lambda>w. w_id w = k) ws = Some w \<Longrightarrow> w_id w = k \<and> w \<in> set ws"
  by (induction ws) (auto split: if_splits)

section \<open>transactions.transfer\<close>

lemma transfer_failure_unchanged:
  "transfer d ctx inp = (Failure e, d') \<Longrightarrow> d' = d"
  by (auto simp: transfer_def db_defs Let_def split: sum.splits option.splits if_splits)

text \<open>The ledger a transfer leaves when all three checks pass.\<close>

lemma transfer_success:
  assumes "getWalletById d (ti_fromWalletId inp) = Inr (Some fw)"
    and "userId fw = user_id ctx"
    and "getWalletById d (ti_toWalletId inp) = Inr (Some tw)"
    and "\<not> js_lt (balance fw) (ti_amount inp)"
  shows "\<exists>l. d = Some l \<and> transfer d ctx inp =
    (Success ''Transfer completed successfully'',
     Some (transferred l ctx inp fw tw))"
  using assms
  by (cases d)
     (simp_all add: transfer_def db_defs Let_def transferred_def insertTransaction.defs
        transaction.defs)

lemma transfer_Success_D:
  assumes "transfer d ctx inp = (Success m, d')"
  shows "\<exists>fw tw. getWalletById d (ti_fromWalletId inp) = Inr (Some fw)
           \<and> userId fw = user_id ctx
           \<and> getWalletById d (ti_toWalletId inp) = Inr (Some tw)
           \<and> \<not> js_lt (balance fw) (ti_amount inp)"
  using assms
  by (auto simp: transfer_def Let_def split: sum.splits option.splits if_splits)

text \<open>
  C1. A transfer that fails one of its validation steps (the source wallet is missing or
  is not the caller's, the destination wallet is missing, or the source balance is below
  the amount) replies with an error and returns the database it was given: no
  transaction row is inserted and no balance is written.
\<close>

theorem transfer_validation_failure_atomic:
  assumes "getWalletById d (ti_fromWalletId inp) = Inr None
     \<or> (\<exists>w. getWalletById d (ti_fromWalletId inp) = Inr (Some w) \<and> userId w \<noteq> user_id ctx)
     \<or> getWalletById d (ti_toWalletId inp) = Inr None
     \<or> (\<exists>w. getWalletById d (ti_fromWalletId inp) = Inr (Some w)
            \<and> js_lt (balance w) (ti_amount inp))"
  shows "\<exists>e. transfer d ctx inp = (Failure e, d)"
  using assms
  by (auto simp: transfer_def getWalletById_def Let_def split: sum.splits option.splits if_splits)

theorem transfer_validation_failure_atomic_witness:
  "\<exists>e. transfer (Some ex_ledger) ex_caller (ex_transfer 8 1 2 500) = (Failure e, Some ex_ledger)"
proof -
  have "\<exists>w. getWalletById (Some ex_ledger) (ti_fromWalletId (ex_transfer 8 1 2 500))
               = Inr (Some w)
          \<and> js_lt (balance w) (ti_amount (ex_transfer 8 1 2 500))"
    by (simp add: getWalletById_def ex_ledger_def ex_transfer_def)
  then show ?thesis
    by (intro transfer_validation_failure_atomic) blast
qed

text \<open>
  C10. The recipient named in the request is never compared with the owner of the
  destination wallet. Whoever owns the destination wallet, a transfer whose source wallet
  is the caller's and whose source balance is not below the amount succeeds, leaves the
  destination wallet with its balance plus the amount, and appends a transaction row
  whose \<^verbatim>\<open>toUserId\<close> is the recipient of the request.
\<close>

theorem transfer_ignores_destination_owner:
  assumes "getWalletById d (ti_fromWalletId inp) = Inr (Some fw)"
    and "userId fw = user_id ctx"
    and "getWalletById d (ti_toWalletId inp) = Inr (Some tw)"
    and "\<not> js_lt (balance fw) (ti_amount inp)"
  shows "\<exists>d' t. transfer d ctx inp = (Success ''Transfer completed successfully'', d')
           \<and> getWalletById d' (ti_toWalletId inp)
               = Inr (Some (tw\<lparr>balance := js_add (balance tw) (ti_amount inp)\<rparr>))
           \<and> db_transactions d' = db_transactions d @ [t]
           \<and> toUserId t = Some (ti_toUserId inp)
           \<and> toWalletId t = Some (ti_toWalletId inp)"
proof -
  from transfer_success[OF assms] obtain l where l: "d = Some l"
    and t: "transfer d ctx inp
              = (Success ''Transfer completed successfully'', Some (transferred l ctx inp fw tw))"
    by blast
  from assms(3) l have f: "find (\<lambda>w. w_id w = ti_toWalletId inp) (wallets l) = Some tw"
    by (simp add: getWalletById_def)
  from find_Some_w_id[OF f] have id: "w_id tw = ti_toWalletId inp" by simp
  show ?thesis
    unfolding t using l f id
    by (simp add: getWalletById_def db_transactions_def transferred_def find_set_balance
        del: map_map)
qed

theorem transfer_ignores_destination_owner_witness:
  "\<exists>d' t. transfer (Some ex_ledger) ex_caller (ex_transfer 99 1 2 30)
             = (Success ''Transfer completed successfully'', d')
         \<and> getWalletById d' 2
             = Inr (Some \<lparr>w_id = 2, userId = 8, currencyCode = ''USD'', balance = Fin 80,
                          address = None, isActive = False\<rparr>)
         \<and> db_transactions d' = db_transactions (Some ex_ledger) @ [t]
         \<and> toUserId t = Some 99
         \<and> toWalletId t = Some 2"
proof -
  let ?inp = "ex_transfer 99 1 2 30"
  let ?fw = "\<lparr>w_id = 1, userId = 7, currencyCode = ''USD'', balance = Fin 100,
          address = None, isActive = True\<rparr>"
  let ?tw = "\<lparr>w_id = 2, userId = 8, currencyCode = ''USD'', balance = Fin 50,
          address = None, isActive = False\<rparr>"
  have 1: "getWalletById (Some ex_ledger) (ti_fromWalletId ?inp) = Inr (Some ?fw)"
    by (simp add: getWalletById_def ex_ledger_def ex_transfer_def)
  have 2: "userId ?fw = user_id ex_caller"
    by (simp add: ex_caller_def)
  have 3: "getWalletById (Some ex_ledger) (ti_toWalletId ?inp) = Inr (Some ?tw)"
    by (simp add: getWalletById_def ex_ledger_def ex_transfer_def)
  have 4: "\<not> js_lt (balance ?fw) (ti_amount ?inp)"
    by (simp add: ex_transfer_def)
  from transfer_ignores_destination_owner[OF 1 2 3 4] show ?thesis
    by (simp add: ex_transfer_def)
qed

text \<open>
  C2, as stated, fails: the procedure has no check of the amount's sign. User 7 asks for
  a transfer of \<open>-5\<close> from wallet 1 (balance 100) to wallet 2 (balance 50); the reply is a
  success, one transaction row is inserted, and the balances become 105 and 45.
\<close>

theorem transfer_negative_amount_counterexample:
  "fst (transfer (Some ex_ledger) ex_caller (ex_transfer 8 1 2 (- 5)))
     = Success ''Transfer completed successfully''
   \<and> map balance (db_wallets (snd (transfer (Some ex_ledger) ex_caller (ex_transfer 8 1 2 (- 5)))))
     = [Fin 105, Fin 45, Fin 1]
   \<and> length (db_transactions
        (snd (transfer (Some ex_ledger) ex_caller (ex_transfer 8 1 2 (- 5))))) = 1"
  by (simp add: transfer_def db_defs ex_ledger_def ex_caller_def ex_transfer_def Let_def
      db_wallets_def db_transactions_def js_sub_def)

text \<open>
  C2, amended. An amount that is zero or negative is not rejected. When the source wallet
  is the caller's, its balance is finite and not below the amount, and the destination
  wallet exists, the transfer succeeds: it appends a completed transfer row carrying that
  amount, leaves the destination wallet with its balance plus the amount and, when the
  two wallets differ, the source wallet with its balance minus the amount.
\<close>

theorem transfer_nonpositive_amount_accepted:
  assumes "ti_amount inp = Fin a" and "a \<le> 0"
    and "getWalletById d (ti_fromWalletId inp) = Inr (Some fw)"
    and "userId fw = user_id ctx"
    and "balance fw = Fin b" and "a \<le> b"
    and "getWalletById d (ti_toWalletId inp) = Inr (Some tw)"
  shows "\<exists>d' t. transfer d ctx inp = (Success ''Transfer completed successfully'', d')
           \<and> db_transactions d' = db_transactions d @ [t]
           \<and> amount t = Fin a \<and> transactionType t = Transfer \<and> status t = Completed
           \<and> getWalletById d' (ti_toWalletId inp)
               = Inr (Some (tw\<lparr>balance := js_add (balance tw) (Fin a)\<rparr>))
           \<and> (ti_fromWalletId inp \<noteq> ti_toWalletId inp \<longrightarrow>
                getWalletById d' (ti_fromWalletId inp)
                  = Inr (Some (fw\<lparr>balance := Fin (b - a)\<rparr>)))"
proof -
  have nlt: "\<not> js_lt (balance fw) (ti_amount inp)"
    using assms(1,5,6) by simp
  from transfer_success[OF assms(3,4,7) nlt] obtain l where l: "d = Some l"
    and t: "transfer d ctx inp
              = (Success ''Transfer completed successfully'', Some (transferred l ctx inp fw tw))"
    by blast
  from assms(7) l have ft: "find (\<lambda>w. w_id w = ti_toWalletId inp) (wallets l) = Some tw"
    by (simp add: getWalletById_def)
  from assms(3) l have ff: "find (\<lambda>w. w_id w = ti_fromWalletId inp) (wallets l) = Some fw"
    by (simp add: getWalletById_def)
  from find_Some_w_id[OF ft] have idt: "w_id tw = ti_toWalletId inp" by simp
  from find_Some_w_id[OF ff] have idf: "w_id fw = ti_fromWalletId inp" by simp
  show ?thesis
    unfolding t using l ft ff idt idf assms(1,5)
    by (simp add: getWalletById_def db_transactions_def transferred_def find_set_balance
        js_sub_def del: map_map)
qed

theorem transfer_nonpositive_amount_accepted_witness:
  "\<exists>d' t. transfer (Some ex_ledger) ex_caller (ex_transfer 8 1 2 0)
             = (Success ''Transfer completed successfully'', d')
         \<and> db_transactions d' = db_transactions (Some ex_ledger) @ [t]
         \<and> amount t = Fin 0 \<and> transactionType t = Transfer \<and> status t = Completed
         \<and> getWalletById d' 2
             = Inr (Some \<lparr>w_id = 2, userId = 8, currencyCode = ''USD'', balance = Fin 50,
                          address = None, isActive = False\<rparr>)
         \<and> getWalletById d' 1
             = Inr (Some \<lparr>w_id = 1, userId = 7, currencyCode = ''USD'', balance = Fin 100,
                          address = None, isActive = True\<rparr>)"
proof -
  let ?inp = "ex_transfer 8 1 2 0"
  let ?fw = "\<lparr>w_id = 1, userId = 7, currencyCode = ''USD'', balance = Fin 100,
          address = None, isActive = True\<rparr>"
  let ?tw = "\<lparr>w_id = 2, userId = 8, currencyCode = ''USD'', balance = Fin 50,
          address = None, isActive = False\<rparr>"
  have 1: "ti_amount ?inp = Fin 0"
    by (simp add: ex_transfer_def)
  have 2: "(0::rat) \<le> 0"
    by simp
  have 3: "getWalletById (Some ex_ledger) (ti_fromWalletId ?inp) = Inr (Some ?fw)"
    by (simp add: getWalletById_def ex_ledger_def ex_transfer_def)
  have 4: "userId ?fw = user_id ex_caller"
    by (simp add: ex_caller_def)
  have 5: "balance ?fw = Fin 100"
    by simp
  have 6: "(0::rat) \<le> 100"
    by simp
  have 7: "getWalletById (Some ex_ledger) (ti_toWalletId ?inp) = Inr (Some ?tw)"
    by (simp add: getWalletById_def ex_ledger_def ex_transfer_def)
  from transfer_nonpositive_amount_accepted[OF 1 2 3 4 5 6 7] show ?thesis
    by (simp add: ex_transfer_def)
qed

text \<open>
  C4. The sum of the balances is not conserved when source and destination are the same
  wallet: the destination balance is read before the source is debited, and the second
  write overwrites the first. User 7 transfers 30 from wallet 1 (balance 100) to wallet 1;
  the reply is a success and the balance becomes 130.
\<close>

theorem self_transfer_mints_funds:
  "fst (transfer (Some ex_ledger) ex_caller (ex_transfer 7 1 1 30))
     = Success ''Transfer completed successfully''
   \<and> map balance (db_wallets (Some ex_ledger)) = [Fin 100, Fin 50, Fin 1]
   \<and> map balance (db_wallets (snd (transfer (Some ex_ledger) ex_caller (ex_transfer 7 1 1 30))))
     = [Fin 130, Fin 50, Fin 1]"
  by (simp add: transfer_def db_defs ex_ledger_def ex_caller_def ex_transfer_def Let_def
      db_wallets_def js_sub_def)

text \<open>
  Between two different wallets with finite balances, a transfer of a finite amount that
  succeeds does conserve the sum of the two balances and leaves every other wallet as it
  was.
\<close>

lemma transfer_conserves_distinct_wallets:
  assumes "transfer d ctx inp = (Success m, d')"
    and "ti_fromWalletId inp \<noteq> ti_toWalletId inp"
    and "ti_amount inp = Fin a"
    and "getWalletById d (ti_fromWalletId inp) = Inr (Some fw)" and "balance fw = Fin bf"
    and "getWalletById d (ti_toWalletId inp) = Inr (Some tw)" and "balance tw = Fin bt"
  shows "getWalletById d' (ti_fromWalletId inp) = Inr (Some (fw\<lparr>balance := Fin (bf - a)\<rparr>))
       \<and> getWalletById d' (ti_toWalletId inp) = Inr (Some (tw\<lparr>balance := Fin (bt + a)\<rparr>))
       \<and> (bf - a) + (bt + a) = bf + bt
       \<and> (\<forall>k. k \<noteq> ti_fromWalletId inp \<and> k \<noteq> ti_toWalletId inp
              \<longrightarrow> getWalletById d' k = getWalletById d k)"
proof -
  from transfer_Success_D[OF assms(1)] assms(4,6)
  have own: "userId fw = user_id ctx" and nlt: "\<not> js_lt (balance fw) (ti_amount inp)"
    by auto
  from transfer_success[OF assms(4) own assms(6) nlt] obtain l where l: "d = Some l"
    and t: "transfer d ctx inp
              = (Success ''Transfer completed successfully'', Some (transferred l ctx inp fw tw))"
    by blast
  from assms(6) l have ft: "find (\<lambda>w. w_id w = ti_toWalletId inp) (wallets l) = Some tw"
    by (simp add: getWalletById_def)
  from assms(4) l have ff: "find (\<lambda>w. w_id w = ti_fromWalletId inp) (wallets l) = Some fw"
    by (simp add: getWalletById_def)
  from find_Some_w_id[OF ft] have idt: "w_id tw = ti_toWalletId inp" by simp
  from find_Some_w_id[OF ff] have idf: "w_id fw = ti_fromWalletId inp" by simp
  have others: "getWalletById d' k = getWalletById d k"
    if "k \<noteq> ti_fromWalletId inp" "k \<noteq> ti_toWalletId inp" for k
  proof (cases "find (\<lambda>w. w_id w = k) (wallets l)")
    case None
    then show ?thesis
      using assms(1) l unfolding t
      by (auto simp: getWalletById_def transferred_def find_set_balance simp del: map_map)
  next
    case (Some w)
    with find_Some_w_id[OF Some] that show ?thesis
      using assms(1) l unfolding t
      by (auto simp: getWalletById_def transferred_def find_set_balance simp del: map_map)
  qed
  have "getWalletById d' (ti_fromWalletId inp) = Inr (Some (fw\<lparr>balance := Fin (bf - a)\<rparr>))"
    using assms(1,2,3,5,7) l ft ff idt idf unfolding t
    by (auto simp: getWalletById_def transferred_def find_set_balance js_sub_def
        simp del: map_map)
  moreover
  have "getWalletById d' (ti_toWalletId inp) = Inr (Some (tw\<lparr>balance := Fin (bt + a)\<rparr>))"
    using assms(1,2,3,5,7) l ft ff idt idf unfolding t
    by (auto simp: getWalletById_def transferred_def find_set_balance js_sub_def
        simp del: map_map)
  ultimately show ?thesis using others by simp
qed

subsection \<open>The isActive flag\<close>

lemma find_with_active:
  "find (\<lambda>w. w_id w = k) (map (\<lambda>w. w\<lparr>isActive := act (w_id w)\<rparr>) ws)
     = map_option (\<lambda>w. w\<lparr>isActive := act (w_id w)\<rparr>) (find (\<lambda>w. w_id w = k) ws)"
  by (induction ws) auto

lemma set_balance_with_active:
  "map (\<lambda>w. if w_id w = j then w\<lparr>balance := b\<rparr> else w)
       (map (\<lambda>w. w\<lparr>isActive := act (w_id w)\<rparr>) ws)
     = map (\<lambda>w. w\<lparr>isActive := act (w_id w)\<rparr>)
         (map (\<lambda>w. if w_id w = j then w\<lparr>balance := b\<rparr> else w) ws)"
  by (induction ws) auto

lemma transfer_with_active:
  "transfer (with_active act d) ctx inp
     = (fst (transfer d ctx inp), with_active act (snd (transfer d ctx inp)))"
proof (cases d)
  case None
  then show ?thesis by (simp add: with_active_def transfer_def getWalletById_def)
next
  case (Some l)
  show ?thesis
    unfolding Some
    by (auto simp: with_active_def transfer_def db_defs Let_def find_with_active
        set_balance_with_active split: option.splits simp del: map_map)
qed

text \<open>
  C5, as stated, fails: no procedure reads \<^verbatim>\<open>isActive\<close>. Wallet 2 is deactivated, and the
  transfer of 30 from wallet 1 to wallet 2 succeeds and moves the funds.
\<close>

theorem transfer_inactive_wallet_counterexample:
  "map isActive (db_wallets (Some ex_ledger)) = [True, False, True]
   \<and> fst (transfer (Some ex_ledger) ex_caller (ex_transfer 8 1 2 30))
       = Success ''Transfer completed successfully''
   \<and> map balance (db_wallets (snd (transfer (Some ex_ledger) ex_caller (ex_transfer 8 1 2 30))))
       = [Fin 70, Fin 80, Fin 1]"
  by (simp add: transfer_def db_defs ex_ledger_def ex_caller_def ex_transfer_def Let_def
      db_wallets_def js_sub_def)

text \<open>
  C5, amended. A transfer succeeds only when the source and the destination wallet both
  exist, the source is the caller's and its balance is not below the amount. The
  \<^verbatim>\<open>isActive\<close> flags are not consulted: with the flags of the wallets set in any other
  way, the reply is the same and the database left is the same up to those flags.
\<close>

theorem transfer_needs_wallets_not_activity:
  "(transfer d ctx inp = (Success m, d') \<longrightarrow>
      (\<exists>fw tw. getWalletById d (ti_fromWalletId inp) = Inr (Some fw)
         \<and> userId fw = user_id ctx
         \<and> getWalletById d (ti_toWalletId inp) = Inr (Some tw)
         \<and> \<not> js_lt (balance fw) (ti_amount inp)))
   \<and> transfer (with_active act d) ctx inp
       = (fst (transfer d ctx inp), with_active act (snd (transfer d ctx inp)))"
  using transfer_Success_D[of d ctx inp m d'] transfer_with_active[of act d ctx inp]
  by blast

theorem transfer_needs_wallets_not_activity_witness:
  "(\<exists>fw tw. getWalletById (Some ex_ledger) 1 = Inr (Some fw)
         \<and> userId fw = 7
         \<and> getWalletById (Some ex_ledger) 2 = Inr (Some tw)
         \<and> \<not> js_lt (balance fw) (Fin 30))
   \<and> transfer (with_active (\<lambda>_. True) (Some ex_ledger)) ex_caller (ex_transfer 8 1 2 30)
       = (Success ''Transfer completed successfully'',
          with_active (\<lambda>_. True)
            (snd (transfer (Some ex_ledger) ex_caller (ex_transfer 8 1 2 30))))"
proof -
  let ?t = "transfer (Some ex_ledger) ex_caller (ex_transfer 8 1 2 30)"
  have f: "fst ?t = Success ''Transfer completed successfully''"
    by (simp add: transfer_def db_defs ex_ledger_def ex_caller_def ex_transfer_def Let_def)
  then have h: "?t = (Success ''Transfer completed successfully'', snd ?t)"
    by (simp add: prod_eq_iff)
  from transfer_needs_wallets_not_activity
         [of "Some ex_ledger" ex_caller "ex_transfer 8 1 2 30"
             "''Transfer completed successfully''" "snd ?t" "\<lambda>_. True"] h f
  show ?thesis
    by (simp add: ex_transfer_def ex_caller_def)
qed

section \<open>crypto.initiateWithdrawal\<close>

text \<open>
  C6, as stated, fails: the procedure inserts the pending withdrawal and never writes a
  balance. User 7 initiates a withdrawal of 0.5 BTC from a wallet holding 1 BTC; the reply
  is a success and the wallet still holds 1 BTC.
\<close>

theorem initiateWithdrawal_no_debit_counterexample:
  "fst (initiateWithdrawal (Some ex_ledger) ex_caller ex_withdrawal)
     = Success (''Withdrawal initiated successfully'', Pending, BTC)
   \<and> map balance (db_wallets (Some ex_ledger)) = [Fin 100, Fin 50, Fin 1]
   \<and> map balance (db_wallets (snd (initiateWithdrawal (Some ex_ledger) ex_caller ex_withdrawal)))
     = [Fin 100, Fin 50, Fin 1]"
  by (simp add: initiateWithdrawal_def db_defs ex_ledger_def ex_caller_def ex_withdrawal_def
      Let_def db_wallets_def)

text \<open>
  C6, amended. When the caller has a wallet in the cryptocurrency whose balance is not
  below the amount, initiating a withdrawal succeeds with status pending and appends a
  transaction row of type withdrawal and status pending, carrying the amount, the caller
  and the wallet; the wallets table is left as it was: no balance is debited.
\<close>

theorem initiateWithdrawal_records_pending:
  assumes "getUserWallets d (user_id ctx) = Inr ws"
    and "find (\<lambda>w. currencyCode w = crypto_code (wi_cryptocurrency inp)) ws = Some w"
    and "\<not> js_lt (balance w) (wi_amount inp)"
  shows "\<exists>d' t. initiateWithdrawal d ctx inp
             = (Success (''Withdrawal initiated successfully'', Pending, wi_cryptocurrency inp), d')
           \<and> db_wallets d' = db_wallets d
           \<and> db_transactions d' = db_transactions d @ [t]
           \<and> transactionType t = Withdrawal \<and> status t = Pending
           \<and> amount t = wi_amount inp
           \<and> fromUserId t = Some (user_id ctx) \<and> fromWalletId t = w_id w"
  using assms
  by (cases d)
     (auto simp: initiateWithdrawal_def db_defs Let_def db_wallets_def db_transactions_def
        insertTransaction.defs transaction.defs)

theorem initiateWithdrawal_records_pending_witness:
  "\<exists>d' t. initiateWithdrawal (Some ex_ledger) ex_caller ex_withdrawal
             = (Success (''Withdrawal initiated successfully'', Pending, BTC), d')
           \<and> db_wallets d' = db_wallets (Some ex_ledger)
           \<and> db_transactions d' = db_transactions (Some ex_ledger) @ [t]
           \<and> transactionType t = Withdrawal \<and> status t = Pending
           \<and> amount t = Fin (1 / 2)
           \<and> fromUserId t = Some 7 \<and> fromWalletId t = 3"
proof -
  let ?w1 = "\<lparr>w_id = 1, userId = 7, currencyCode = ''USD'', balance = Fin 100,
          address = None, isActive = True\<rparr>"
  let ?w3 = "\<lparr>w_id = 3, userId = 7, currencyCode = ''BTC'', balance = Fin 1,
          address = Some ''1A1z7agoat4FqCnf4Xy2MQUqLCWCuqq2em'', isActive = True\<rparr>"
  have 1: "getUserWallets (Some ex_ledger) (user_id ex_caller) = Inr [?w1, ?w3]"
    by (simp add: getUserWallets_def ex_ledger_def ex_caller_def)
  have 2: "find (\<lambda>w. currencyCode w = crypto_code (wi_cryptocurrency ex_withdrawal)) [?w1, ?w3]
             = Some ?w3"
    by (simp add: ex_withdrawal_def)
  have 3: "\<not> js_lt (balance ?w3) (wi_amount ex_withdrawal)"
    by (simp add: ex_withdrawal_def)
  from initiateWithdrawal_records_pending[OF 1 2 3] show ?thesis
    by (simp add: ex_withdrawal_def ex_caller_def)
qed

section \<open>Balances that are not negative\<close>

lemma finite_nonneg_add:
  "finite_nonneg x \<Longrightarrow> finite_nonneg a \<Longrightarrow> finite_nonneg (js_add x a)"
  by (cases x; cases a) (simp_all add: finite_nonneg_def)

lemma finite_nonneg_sub:
  "finite_nonneg x \<Longrightarrow> finite_nonneg a \<Longrightarrow> \<not> js_lt x a \<Longrightarrow> finite_nonneg (js_sub x a)"
  by (cases x; cases a) (simp_all add: finite_nonneg_def js_sub_def)

lemma finite_nonneg_js_le: "finite_nonneg x \<Longrightarrow> js_le (Fin 0) x"
  by (cases x) (simp_all add: finite_nonneg_def)

lemma balances_nonneg_update:
  assumes "balances_nonneg d" and "finite_nonneg b" and "updateWalletBalance d k b = Inr d'"
  shows "balances_nonneg d'"
  using assms
  by (cases d) (auto simp: balances_nonneg_def db_wallets_def updateWalletBalance_def
      list_all_iff)

lemma balances_nonneg_createTransaction:
  assumes "balances_nonneg d" and "createTransaction d t = Inr d'"
  shows "balances_nonneg d'"
  using assms
  by (cases d) (auto simp: balances_nonneg_def db_wallets_def createTransaction_def)

lemma balances_nonneg_createWallet:
  assumes "balances_nonneg d" and "createWallet d u c a = Inr d'"
  shows "balances_nonneg d'"
  using assms
  by (cases d) (auto simp: balances_nonneg_def db_wallets_def createWallet_def finite_nonneg_def)

lemma balances_nonneg_getWalletById:
  assumes "balances_nonneg d" and "getWalletById d k = Inr (Some w)"
  shows "finite_nonneg (balance w)"
  using assms
  by (cases d) (auto simp: balances_nonneg_def db_wallets_def getWalletById_def list_all_iff
      dest: find_Some_w_id)

lemmas nonneg_steps = balances_nonneg_update balances_nonneg_createTransaction
  balances_nonneg_createWallet balances_nonneg_getWalletById finite_nonneg_add finite_nonneg_sub

lemma transfer_nonneg:
  assumes "balances_nonneg d" and "finite_nonneg (ti_amount inp)"
  shows "balances_nonneg (snd (transfer d ctx inp))"
  using assms
  apply (auto simp: transfer_def Let_def split: sum.splits option.splits)
  apply (meson nonneg_steps)+
  done

lemma recordDeposit_nonneg:
  assumes "balances_nonneg d" and "finite_nonneg (ri_amount inp)"
  shows "balances_nonneg (snd (recordDeposit d ctx inp))"
  using assms
  apply (auto simp: recordDeposit_def Let_def split: sum.splits option.splits)
  apply (meson nonneg_steps)+
  done

lemma recordWithdrawal_nonneg:
  assumes "balances_nonneg d" and "finite_nonneg (ri_amount inp)"
  shows "balances_nonneg (snd (recordWithdrawal d ctx inp))"
  using assms
  apply (auto simp: recordWithdrawal_def Let_def split: sum.splits option.splits)
  apply (meson nonneg_steps)+
  done

lemma initiateWithdrawal_nonneg:
  assumes "balances_nonneg d"
  shows "balances_nonneg (snd (initiateWithdrawal d ctx inp))"
  using assms
  by (auto simp: initiateWithdrawal_def Let_def split: sum.splits option.splits
      intro: balances_nonneg_createTransaction)

lemma create_nonneg:
  assumes "balances_nonneg d"
  shows "balances_nonneg (snd (create d ctx inp))"
  using assms
  by (auto simp: create_def Let_def split: sum.splits option.splits
      intro: balances_nonneg_createWallet)

lemma generateAddress_nonneg:
  assumes "balances_nonneg d"
  shows "balances_nonneg (snd (generateAddress d ctx c))"
  using assms
  by (auto simp: generateAddress_def Let_def split: sum.splits option.splits
      intro: balances_nonneg_createWallet)

lemma handle_nonneg:
  assumes "balances_nonneg d"
    and "case request_amount r of None \<Rightarrow> True | Some a \<Rightarrow> finite_nonneg a"
  shows "balances_nonneg (handle d r)"
  using assms
  by (cases r)
     (simp_all add: transfer_nonneg recordDeposit_nonneg recordWithdrawal_nonneg
        initiateWithdrawal_nonneg create_nonneg generateAddress_nonneg)

lemma run_nonneg:
  assumes "balances_nonneg d" and "amounts_nonneg reqs"
  shows "balances_nonneg (run d reqs)"
  using assms
  unfolding run_def amounts_nonneg_def
  by (induction reqs arbitrary: d) (simp_all add: handle_nonneg)

lemma run_ex_requests:
  "map balance (db_wallets (run (Some empty_ledger) ex_requests)) = [Fin 0, Fin 30]"
  by (simp add: run_def ex_requests_def empty_ledger_def proc_defs db_defs Let_def
      ex_transfer_def db_wallets_def js_sub_def list_ex_iff or_default_def)

text \<open>
  C3, as stated, fails: no procedure checks the sign of an amount. On an empty database,
  user 7 opens a USD wallet (balance 0) and records a deposit of \<open>-5\<close>; the wallet then
  holds \<open>-5\<close>.
\<close>

theorem negative_deposit_counterexample:
  "map balance (db_wallets (run (Some empty_ledger) ex_negative_deposit)) = [Fin (- 5)]
   \<and> \<not> js_le (Fin 0) (Fin (- 5))"
  by (simp add: run_def ex_negative_deposit_def empty_ledger_def proc_defs db_defs Let_def
      db_wallets_def list_ex_iff or_default_def)

text \<open>
  C3, amended. From a database whose balances are all finite and not negative (a wallet
  is created with balance 0), after every sequence of requests (create, transfer,
  recordDeposit, recordWithdrawal, generateAddress, initiateWithdrawal) whose amounts are
  all finite and not negative, every wallet's balance is \<open>\<ge> 0\<close>.
\<close>

theorem balances_stay_nonneg:
  assumes "balances_nonneg d" and "amounts_nonneg reqs"
  shows "\<forall>w \<in> set (db_wallets (run d reqs)). js_le (Fin 0) (balance w)"
  using run_nonneg[OF assms]
  by (auto simp: balances_nonneg_def list_all_iff intro: finite_nonneg_js_le)

theorem balances_stay_nonneg_witness:
  "balances_nonneg (Some empty_ledger) \<and> amounts_nonneg ex_requests
   \<and> list_all (\<lambda>w. js_le (Fin 0) (balance w))
         (db_wallets (run (Some empty_ledger) ex_requests))
   \<and> map balance (db_wallets (run (Some empty_ledger) ex_requests)) = [Fin 0, Fin 30]"
proof -
  have 1: "balances_nonneg (Some empty_ledger)"
    by (simp add: balances_nonneg_def db_wallets_def empty_ledger_def)
  have 2: "amounts_nonneg ex_requests"
    by (simp add: amounts_nonneg_def ex_requests_def ex_transfer_def finite_nonneg_def)
  from balances_stay_nonneg[OF 1 2]
  have "list_all (\<lambda>w. js_le (Fin 0) (balance w))
          (db_wallets (run (Some empty_ledger) ex_requests))"
    by (simp add: list_all_iff)
  with 1 2 run_ex_requests show ?thesis
    by blast
qed

section \<open>One wallet for an owner and a currency\<close>

lemma wallet_keys_update:
  assumes "updateWalletBalance d k b = Inr d'"
  shows "wallet_keys d' = wallet_keys d"
  using assms
  by (cases d) (auto simp: wallet_keys_def db_wallets_def updateWalletBalance_def)

lemma wallet_keys_createTransaction:
  assumes "createTransaction d t = Inr d'"
  shows "wallet_keys d' = wallet_keys d"
  using assms
  by (cases d) (auto simp: wallet_keys_def db_wallets_def createTransaction_def)

lemmas keys_steps = wallet_keys_update wallet_keys_createTransaction

lemma transfer_keys: "wallet_keys (snd (transfer d ctx inp)) = wallet_keys d"
  apply (auto simp: transfer_def Let_def split: sum.splits option.splits)
  apply (metis keys_steps)+
  done

lemma recordDeposit_keys: "wallet_keys (snd (recordDeposit d ctx inp)) = wallet_keys d"
  apply (auto simp: recordDeposit_def Let_def split: sum.splits option.splits)
  apply (metis keys_steps)+
  done

lemma recordWithdrawal_keys: "wallet_keys (snd (recordWithdrawal d ctx inp)) = wallet_keys d"
  apply (auto simp: recordWithdrawal_def Let_def split: sum.splits option.splits)
  apply (metis keys_steps)+
  done

lemma initiateWithdrawal_keys:
  "wallet_keys (snd (initiateWithdrawal d ctx inp)) = wallet_keys d"
  by (auto simp: initiateWithdrawal_def Let_def wallet_keys_createTransaction
      split: sum.splits option.splits)

lemma createWallet_distinct:
  assumes "distinct (wallet_keys d)"
    and "getUserWallets d u = Inr ws"
    and "\<not> list_ex (\<lambda>w. currencyCode w = c) ws"
    and "createWallet d u c a = Inr d'"
  shows "distinct (wallet_keys d')"
  using assms
  by (cases d) (auto simp: wallet_keys_def db_wallets_def createWallet_def getUserWallets_def
      list_ex_iff)

lemma create_distinct:
  assumes "distinct (wallet_keys d)"
  shows "distinct (wallet_keys (snd (create d ctx inp)))"
  using assms
  by (auto simp: create_def Let_def split: sum.splits intro: createWallet_distinct)

lemma generateAddress_distinct:
  assumes "distinct (wallet_keys d)"
  shows "distinct (wallet_keys (snd (generateAddress d ctx c)))"
  using assms
  by (auto simp: generateAddress_def Let_def split: sum.splits intro: createWallet_distinct)

lemma handle_distinct:
  assumes "distinct (wallet_keys d)"
  shows "distinct (wallet_keys (handle d r))"
  using assms
  by (cases r)
     (simp_all add: transfer_keys recordDeposit_keys recordWithdrawal_keys
        initiateWithdrawal_keys create_distinct generateAddress_distinct)

lemma run_distinct:
  assumes "distinct (wallet_keys d)"
  shows "distinct (wallet_keys (run d reqs))"
  using assms
  unfolding run_def
  by (induction reqs arbitrary: d) (simp_all add: handle_distinct)

text \<open>
  The insertion that a successful \<^verbatim>\<open>wallets.create\<close> made.
\<close>

lemma create_Success_D:
  assumes "create d ctx inp = (Success m, d1)"
  shows "\<exists>l. d = Some l
          \<and> ci_currencyCode inp \<noteq> [] \<and> length (ci_currencyCode inp) \<le> 10
          \<and> \<not> list_ex (\<lambda>w. currencyCode w = ci_currencyCode inp)
                (filter (\<lambda>w. userId w = user_id ctx) (wallets l))
          \<and> d1 = Some (l\<lparr>wallets := wallets l @
                        [\<lparr>w_id = walletSeq l + 1, userId = user_id ctx,
                          currencyCode = ci_currencyCode inp,
                          balance = Fin 0, address = ci_address inp, isActive = True\<rparr>],
                      walletSeq := walletSeq l + 1\<rparr>)"
  using assms
  by (cases d) (auto simp: create_def db_defs Let_def split: if_splits)

lemma create_twice:
  assumes "create d ctx inp = (Success m, d1)"
    and "ci_currencyCode inp2 = ci_currencyCode inp"
  shows "create d1 ctx inp2
           = (Failure (''Wallet for '' @ ci_currencyCode inp @ '' already exists''), d1)"
proof -
  from create_Success_D[OF assms(1)] obtain l where
    "ci_currencyCode inp \<noteq> []" "length (ci_currencyCode inp) \<le> 10"
    "d1 = Some (l\<lparr>wallets := wallets l @
                        [\<lparr>w_id = walletSeq l + 1, userId = user_id ctx,
                          currencyCode = ci_currencyCode inp,
                          balance = Fin 0, address = ci_address inp, isActive = True\<rparr>],
                      walletSeq := walletSeq l + 1\<rparr>)"
    by blast
  then show ?thesis
    using assms(2) by (simp add: create_def getUserWallets_def list_ex_iff)
qed

text \<open>
  C8. A second \<^verbatim>\<open>wallets.create\<close> by the same user for the same currency code, after a
  first one that succeeded, replies that the wallet already exists and returns the
  database unchanged, with the first wallet as it was. And the pairs (owner, currency
  code) of the wallets, once distinct, stay distinct through every sequence of requests:
  there is at most one wallet for an owner and a currency.
\<close>

theorem create_wallet_unique:
  "(create d ctx inp = (Success m, d1) \<and> ci_currencyCode inp2 = ci_currencyCode inp \<longrightarrow>
      create d1 ctx inp2
        = (Failure (''Wallet for '' @ ci_currencyCode inp @ '' already exists''), d1))
   \<and> (distinct (wallet_keys d) \<longrightarrow> distinct (wallet_keys (run d reqs)))"
  using create_twice[of d ctx inp m d1 inp2] run_distinct[of d reqs]
  by blast

theorem create_wallet_unique_witness:
  "create (snd (create (Some empty_ledger) ex_caller
                  \<lparr>ci_currencyCode = ''USD'', ci_address = None\<rparr>))
          ex_caller \<lparr>ci_currencyCode = ''USD'', ci_address = Some ''x''\<rparr>
     = (Failure ''Wallet for USD already exists'',
        Some \<lparr>wallets = [\<lparr>w_id = 1, userId = 7, currencyCode = ''USD'', balance = Fin 0,
                           address = None, isActive = True\<rparr>],
              walletSeq = 1, transactions = [], transactionSeq = 0\<rparr>)
   \<and> distinct (wallet_keys (run (Some empty_ledger) ex_requests))"
proof -
  let ?inp = "\<lparr>ci_currencyCode = ''USD'', ci_address = None\<rparr>"
  let ?inp2 = "\<lparr>ci_currencyCode = ''USD'', ci_address = Some ''x''\<rparr>"
  let ?d1 = "Some \<lparr>wallets = [\<lparr>w_id = 1, userId = 7, currencyCode = ''USD'', balance = Fin 0,
                           address = None, isActive = True\<rparr>],
              walletSeq = 1, transactions = [], transactionSeq = 0\<rparr>"
  have 1: "create (Some empty_ledger) ex_caller ?inp
             = (Success ''USD wallet created successfully'', ?d1)"
    by (simp add: create_def db_defs empty_ledger_def ex_caller_def)
  have 2: "ci_currencyCode ?inp2 = ci_currencyCode ?inp"
    by simp
  have 3: "distinct (wallet_keys (Some empty_ledger))"
    by (simp add: wallet_keys_def db_wallets_def empty_ledger_def)
  from create_wallet_unique
         [of "Some empty_ledger" ex_caller ?inp "''USD wallet created successfully''" ?d1 ?inp2
             ex_requests]
       1 2 3
  show ?thesis
    by simp
qed

section \<open>wallets.getDistribution\<close>




end
